theory Spec2Isabelle
  imports Main
begin

section \<open>Data model of \<^verbatim>\<open>responses.py\<close>\<close>

text \<open>
  Python strings are modelled as \<open>string\<close> (lists of 8-bit characters). Exceptions are
  values: every \<^verbatim>\<open>raise\<close> of the source, and every raise of a library call the source
  does not catch, is an \<open>Inl\<close> result. The constructor records where the exception comes
  from: \<open>ConnectionError\<close> is only ever built by the dispatcher, \<open>StopIteration\<close> by
  \<^verbatim>\<open>next\<close> on an exhausted iterator, \<open>AttributeError\<close> by reading an attribute
  an object does not have (\<^verbatim>\<open>_as_requests_response\<close> of an object of another class,
  \<^verbatim>\<open>_patcher\<close> before any \<^verbatim>\<open>start\<close>), \<open>IndexError\<close> by reading the call list out
  of range, \<open>RuntimeError\<close> by stopping a patcher that is not started, \<open>CallbackFailure\<close>
  carries whatever a registered callback raised and \<open>LibraryFailure\<close> whatever
  \<^verbatim>\<open>urlparse\<close> or \<^verbatim>\<open>parse_qsl\<close> raised.
\<close>

datatype exn =
    ConnectionError string
  | StopIteration
  | AttributeError
  | IndexError
  | RuntimeError
  | CallbackFailure string
  | LibraryFailure string

text \<open>
  \<^verbatim>\<open>class Response\<close>: the five attributes set by \<^verbatim>\<open>__init__\<close>. The body is stored as
  bytes; \<^verbatim>\<open>adding_headers\<close> is \<^verbatim>\<open>None\<close> or a dictionary, kept as an association list.
\<close>

record response =
  body :: string
  status :: int
  adding_headers :: "(string \<times> string) list option"
  stream :: bool
  content_type :: string

text \<open>
  The prepared request of the HTTP client, as far as the source reads it:
  \<^verbatim>\<open>request.method\<close>, \<^verbatim>\<open>request.url\<close>, \<^verbatim>\<open>request.headers\<close>, \<^verbatim>\<open>request.body\<close>.
\<close>

record prepared_request =
  pr_method :: string
  pr_url :: string
  pr_headers :: "(string \<times> string) list"
  pr_body :: "string option"

text \<open>\<^verbatim>\<open>class Request\<close>: the snapshot handed to a callback.\<close>

record request =
  rq_method :: string
  rq_url :: string
  rq_headers :: "(string \<times> string) list"
  rq_params :: "string \<rightharpoonup> string"
  rq_data :: "string \<rightharpoonup> string"

text \<open>
  What a callback returns or a sequence holds is any Python object: \<^verbatim>\<open>None\<close>, a
  \<^verbatim>\<open>Response\<close>, or an object of another class (which has no
  \<^verbatim>\<open>_as_requests_response\<close>).
\<close>

datatype pyobj = PyNone | PyResponse response | PyOther

type_synonym callback = "request \<Rightarrow> string + pyobj"

text \<open>
  The \<^verbatim>\<open>side_effect\<close> argument is dynamically typed. \<open>SNone\<close> is \<^verbatim>\<open>None\<close>,
  \<open>SCallable\<close> an object with \<^verbatim>\<open>__call__\<close>, \<open>SSequence\<close> an instance of
  \<^verbatim>\<open>collections.Sequence\<close> with its items, \<open>SIterator\<close> a (finite) iterator with the
  items it has yet to yield, \<open>SOther\<close> anything else.
\<close>

datatype side_effect_t =
    SNone
  | SCallable callback
  | SSequence "pyobj list"
  | SIterator "pyobj list"
  | SOther

text \<open>The dictionary \<^verbatim>\<open>match\<close> that \<^verbatim>\<open>add\<close> appends to \<^verbatim>\<open>_urls\<close>.\<close>

record expectation =
  m_url :: string
  m_method :: string
  m_match_querystring :: bool
  m_side_effect :: side_effect_t
  m_response :: response

section \<open>String operations of the source\<close>

text \<open>\<^verbatim>\<open>url.count('/')\<close>\<close>

definition count_char :: "char \<Rightarrow> string \<Rightarrow> nat" where
  "count_char c s = length (filter (\<lambda>x. x = c) s)"

text \<open>\<^verbatim>\<open>url.replace('?', '/?', 1)\<close>: only the first occurrence is replaced.\<close>

fun replace_first :: "char \<Rightarrow> string \<Rightarrow> string \<Rightarrow> string" where
  "replace_first c new [] = []"
| "replace_first c new (x # xs) = (if x = c then new @ xs else x # replace_first c new xs)"

text \<open>\<^verbatim>\<open>url.split('?', 1)[0]\<close>: everything before the first question mark.\<close>

definition split_first :: "char \<Rightarrow> string \<Rightarrow> string" where
  "split_first c s = takeWhile (\<lambda>x. x \<noteq> c) s"

subsection \<open>The fragment of \<^verbatim>\<open>re\<close> that the matcher uses\<close>

definition backslash :: char where
  "backslash = CHR 0x5C"

definition NUL :: char where
  "NUL = CHR 0x00"

text \<open>\<^verbatim>\<open>re._alphanum\<close>: the ASCII letters and digits.\<close>

definition alphanum :: "char \<Rightarrow> bool" where
  "alphanum c \<longleftrightarrow>
     c \<in> set ''abcdefghijklmnopqrstuvwxyzABCDEFGHIJKLMNOPQRSTUVWXYZ0123456789''"

definition octdigit :: "char \<Rightarrow> bool" where
  "octdigit c \<longleftrightarrow> c \<in> set ''01234567''"

definition octval :: "char \<Rightarrow> nat" where
  "octval c = of_char c - 48"

text \<open>
  \<^verbatim>\<open>re.escape\<close>: every character that is not alphanumeric gets a backslash in front;
  the NUL character becomes the octal escape \<^verbatim>\<open>\000\<close>.
\<close>

fun re_escape :: "string \<Rightarrow> string" where
  "re_escape [] = []"
| "re_escape (c # cs) =
     (if alphanum c then [c]
      else if c = NUL then [backslash, CHR ''0'', CHR ''0'', CHR ''0'']
      else [backslash, c]) @ re_escape cs"

text \<open>
  Reading a pattern: alphanumeric characters stand for themselves, a backslash followed
  by a character that is not alphanumeric stands for that character, and a backslash
  followed by \<^verbatim>\<open>0\<close> is an octal escape of up to two further octal digits. That is the
  part of the pattern language \<^verbatim>\<open>re.escape\<close> writes in; on any other pattern (an
  unescaped metacharacter, a class or group escape, a trailing backslash) the result is
  \<open>None\<close>: the pattern is outside the modelled fragment.
\<close>

datatype pstate = Plain | Esc | Oct nat nat

fun sre_literals :: "pstate \<Rightarrow> string \<Rightarrow> string option" where
  "sre_literals Plain [] = Some []"
| "sre_literals Esc [] = None"
| "sre_literals (Oct k v) [] = Some [char_of v]"
| "sre_literals Plain (c # cs) =
     (if c = backslash then sre_literals Esc cs
      else if alphanum c then map_option ((#) c) (sre_literals Plain cs)
      else None)"
| "sre_literals Esc (c # cs) =
     (if c = CHR ''0'' then sre_literals (Oct 2 0) cs
      else if alphanum c then None
      else map_option ((#) c) (sre_literals Plain cs))"
| "sre_literals (Oct k v) (c # cs) =
     (if 0 < k \<and> octdigit c then sre_literals (Oct (k - 1) (8 * v + octval c)) cs
      else map_option ((#) (char_of v))
             (if c = backslash then sre_literals Esc cs
              else if alphanum c then map_option ((#) c) (sre_literals Plain cs)
              else None))"

text \<open>\<^verbatim>\<open>s.startswith(p)\<close>\<close>

fun startswith :: "string \<Rightarrow> string \<Rightarrow> bool" where
  "startswith s [] = True"
| "startswith [] (p # ps) = False"
| "startswith (x # xs) (p # ps) = (x = p \<and> startswith xs ps)"

text \<open>
  \<^verbatim>\<open>re.match(pattern, string)\<close> for a pattern of the fragment: the literal characters
  must be found at the start of the string. The result says whether a match object
  (truthy) or \<^verbatim>\<open>None\<close> comes back.
\<close>

definition re_match :: "string \<Rightarrow> string \<Rightarrow> bool option" where
  "re_match pattern s = map_option (startswith s) (sre_literals Plain pattern)"

section \<open>The matcher\<close>

text \<open>
  One round of the loop of \<^verbatim>\<open>_find_match\<close>: \<open>True\<close> when the body reaches
  \<^verbatim>\<open>return match\<close>, \<open>False\<close> when it reaches a \<^verbatim>\<open>continue\<close>.
\<close>

definition match_ok :: "prepared_request \<Rightarrow> expectation \<Rightarrow> bool" where
  "match_ok request match =
     (if pr_method request \<noteq> m_method match then False
      else if m_match_querystring match then
        (case re_match (re_escape (m_url match)) (pr_url request) of
           Some True \<Rightarrow> True
         | _ \<Rightarrow> False)
      else
        (if m_url match \<noteq> split_first CHR ''?'' (pr_url request) then False
         else True))"

text \<open>
  The loop over \<^verbatim>\<open>self._urls\<close>. The source returns the dictionary object itself; the
  model returns it together with its position in the list, which is what identifies the
  object (two registrations may be equal as values). \<open>k\<close> is the position of the head
  of the rest of the list.
\<close>

fun find_match_from ::
  "nat \<Rightarrow> expectation list \<Rightarrow> prepared_request \<Rightarrow> (nat \<times> expectation) option" where
  "find_match_from k [] request = None"
| "find_match_from k (match # rest) request =
     (if match_ok request match then Some (k, match)
      else find_match_from (Suc k) rest request)"

definition find_match ::
  "expectation list \<Rightarrow> prepared_request \<Rightarrow> (nat \<times> expectation) option" where
  "find_match urls request = find_match_from 0 urls request"

section \<open>The response builder\<close>

text \<open>
  \<^verbatim>\<open>HTTPResponse\<close> and \<^verbatim>\<open>HTTPAdapter.build_response\<close> belong to the HTTP client. The
  model keeps what the source hands to them: the status, a fresh buffer over the body,
  the header dictionary and \<^verbatim>\<open>preload_content=False\<close>; then the request the response
  is built for, and whether \<^verbatim>\<open>response.content\<close> has been read.
\<close>

record http_response =
  hr_status :: int
  hr_body :: string
  hr_headers :: "string \<rightharpoonup> string"
  hr_preload_content :: bool

record requests_response =
  rr_raw :: http_response
  rr_request :: prepared_request
  rr_content_read :: bool

text \<open>\<^verbatim>\<open>headers.update(self.adding_headers)\<close>\<close>

definition dict_update :: "(string \<rightharpoonup> string) \<Rightarrow> (string \<times> string) list \<Rightarrow> (string \<rightharpoonup> string)" where
  "dict_update d kvs = foldl (\<lambda>m (k, v). m(k \<mapsto> v)) d kvs"

definition as_http_response :: "response \<Rightarrow> http_response" where
  "as_http_response self =
     (let hdrs = [''Content-Type'' \<mapsto> content_type self];
          hdrs = (case adding_headers self of
                    None \<Rightarrow> hdrs
                  | Some kvs \<Rightarrow> if kvs \<noteq> [] then dict_update hdrs kvs else hdrs)
      in \<lparr>hr_status = status self, hr_body = body self, hr_headers = hdrs,
          hr_preload_content = False\<rparr>)"

definition as_requests_response :: "response \<Rightarrow> prepared_request \<Rightarrow> requests_response" where
  "as_requests_response self request =
     \<lparr>rr_raw = as_http_response self, rr_request = request,
      rr_content_read = (\<not> stream self)\<rparr>"

section \<open>The call recorder\<close>

text \<open>
  \<^verbatim>\<open>Call = namedtuple('Call', ['request', 'response'])\<close>; the second slot holds the
  response handed back or the exception raised.
\<close>

datatype call_slot = Returned requests_response | Failed exn

datatype call = Call (call_request: prepared_request) (call_response: call_slot)

text \<open>\<^verbatim>\<open>class CallList\<close>, as the list \<^verbatim>\<open>_calls\<close> it wraps.\<close>

definition CallList_len :: "call list \<Rightarrow> nat" where
  "CallList_len cs = length cs"

text \<open>
  \<^verbatim>\<open>__getitem__\<close> with an integer: a negative index counts from the end, an index out
  of range raises.
\<close>

definition CallList_getitem :: "call list \<Rightarrow> int \<Rightarrow> exn + call" where
  "CallList_getitem cs idx =
     (if 0 \<le> idx \<and> idx < int (length cs) then Inr (cs ! nat idx)
      else if idx < 0 \<and> - int (length cs) \<le> idx then Inr (cs ! nat (int (length cs) + idx))
      else Inl IndexError)"

definition CallList_add :: "call list \<Rightarrow> prepared_request \<Rightarrow> call_slot \<Rightarrow> call list" where
  "CallList_add cs request response = cs @ [Call request response]"

definition CallList_reset :: "call list \<Rightarrow> call list" where
  "CallList_reset cs = []"

section \<open>The registry\<close>

text \<open>
  What the attribute \<^verbatim>\<open>requests.Session.send\<close> holds: the client's own method, or the
  replacement \<^verbatim>\<open>self._on_request\<close> a patcher has put there.
\<close>

datatype send_impl = OriginalSend | MockSend

text \<open>
  A patcher made by \<^verbatim>\<open>mock.patch('requests.Session.send', self._on_request)\<close>. The class
  belongs to the \<^verbatim>\<open>mock\<close> library; of its state the model keeps the value it saved when
  it was started (\<open>None\<close> while it is not started). Starting a patcher saves what the
  attribute holds and puts the replacement there. Stopping a patcher that is not started
  raises; stopping a started one puts the saved value back.
\<close>

type_synonym patcher = "send_impl option"



text \<open>
  \<^verbatim>\<open>class RequestsMock\<close>: the list \<^verbatim>\<open>_urls\<close>, the call list, and the attribute
  \<^verbatim>\<open>_patcher\<close> (\<open>None\<close> as long as \<^verbatim>\<open>start\<close> has not set it). The one patcher the
  attribute holds is the only one \<^verbatim>\<open>stop\<close> can reach. \<open>session_send\<close> is the attribute
  \<^verbatim>\<open>requests.Session.send\<close> of the client, which the patchers change.
\<close>

record mock =
  mock_urls :: "expectation list"
  mock_calls :: "call list"
  mock_patcher :: "patcher option"
  session_send :: send_impl

definition reset :: "mock \<Rightarrow> mock" where
  "reset self = self\<lparr>mock_urls := [], mock_calls := CallList_reset (mock_calls self)\<rparr>"

text \<open>
  \<^verbatim>\<open>add\<close>. The argument \<open>response\<close> is the object \<^verbatim>\<open>Response(*args, **kwargs)\<close>
  built in the first line (a text body has been encoded to bytes by then).
\<close>

definition add ::
  "mock \<Rightarrow> string \<Rightarrow> string \<Rightarrow> bool \<Rightarrow> side_effect_t \<Rightarrow> response \<Rightarrow> mock" where
  "add self meth u match_querystring side_effect response =
     (let u = (if count_char CHR ''/'' u = 2
               then (if match_querystring then replace_first CHR ''?'' ''/?'' u
                     else u @ ''/'')
               else u);
          side_effect = (case side_effect of
                           SSequence items \<Rightarrow> SIterator items
                         | other \<Rightarrow> other);
          match = \<lparr>m_url = u, m_method = meth,
                   m_match_querystring = match_querystring,
                   m_side_effect = side_effect, m_response = response\<rparr>
      in self\<lparr>mock_urls := mock_urls self @ [match]\<rparr>)"

section \<open>The dispatcher\<close>

text \<open>
  \<^verbatim>\<open>urlparse\<close> and \<^verbatim>\<open>parse_qsl\<close> are functions of the standard library; the model
  takes them as parameters. \<open>lib_query u\<close> is \<^verbatim>\<open>urlparse(u).query\<close>,
  \<open>lib_parse_qsl\<close> is \<^verbatim>\<open>parse_qsl\<close> (its argument may be \<^verbatim>\<open>None\<close>, the body of a
  request without one); \<open>Inl\<close> is an exception raised by the library.
\<close>

record stdlib =
  lib_query :: "string \<Rightarrow> string + string"
  lib_parse_qsl :: "string option \<Rightarrow> string + (string \<times> string) list"

text \<open>\<^verbatim>\<open>dict(pairs)\<close>: a later pair overrides an earlier one with the same key.\<close>

definition dict_of :: "(string \<times> string) list \<Rightarrow> (string \<rightharpoonup> string)" where
  "dict_of kvs = dict_update Map.empty kvs"

definition from_prepared_request :: "stdlib \<Rightarrow> prepared_request \<Rightarrow> exn + request" where
  "from_prepared_request L request =
     (case lib_query L (pr_url request) of
        Inl e \<Rightarrow> Inl (LibraryFailure e)
      | Inr query \<Rightarrow>
          (case lib_parse_qsl L (Some query) of
             Inl e \<Rightarrow> Inl (LibraryFailure e)
           | Inr ps \<Rightarrow>
               (case lib_parse_qsl L (pr_body request) of
                  Inl e \<Rightarrow> Inl (LibraryFailure e)
                | Inr ds \<Rightarrow>
                    Inr \<lparr>rq_method = pr_method request, rq_url = pr_url request,
                         rq_headers = pr_headers request, rq_params = dict_of ps,
                         rq_data = dict_of ds\<rparr>)))"

text \<open>
  \<^verbatim>\<open>_get_response\<close>. \<^verbatim>\<open>next\<close> advances the iterator held by the matched dictionary,
  so the list \<^verbatim>\<open>_urls\<close> is returned with that entry updated. A side effect that is
  neither callable nor an iterator falls off the end of the \<^verbatim>\<open>if\<close>/\<^verbatim>\<open>elif\<close>, and the
  function returns \<^verbatim>\<open>None\<close>.
\<close>

definition get_response ::
  "stdlib \<Rightarrow> expectation list \<Rightarrow> (nat \<times> expectation) option \<Rightarrow> prepared_request
     \<Rightarrow> (exn + pyobj) \<times> expectation list" where
  "get_response L urls match request =
     (case match of
        None \<Rightarrow> (Inr PyNone, urls)
      | Some (i, m) \<Rightarrow>
          (case m_side_effect m of
             SNone \<Rightarrow> (Inr (PyResponse (m_response m)), urls)
           | SCallable side_effect \<Rightarrow>
               (case from_prepared_request L request of
                  Inl e \<Rightarrow> (Inl e, urls)
                | Inr r \<Rightarrow>
                    (case side_effect r of
                       Inl e \<Rightarrow> (Inl (CallbackFailure e), urls)
                     | Inr v \<Rightarrow> (Inr v, urls)))
           | SIterator [] \<Rightarrow> (Inl StopIteration, urls)
           | SIterator (x # xs) \<Rightarrow> (Inr x, urls[i := m\<lparr>m_side_effect := SIterator xs\<rparr>])
           | SSequence items \<Rightarrow> (Inr PyNone, urls)
           | SOther \<Rightarrow> (Inr PyNone, urls)))"

text \<open>
  \<^verbatim>\<open>_on_request\<close>: the outcome (\<open>Inl\<close> what is raised, \<open>Inr\<close> what is returned) and the
  state afterwards.
\<close>

type_synonym outcome = "exn + requests_response"

definition on_request :: "stdlib \<Rightarrow> mock \<Rightarrow> prepared_request \<Rightarrow> outcome \<times> mock" where
  "on_request L self request =
     (let match = find_match (mock_urls self) request;
          (response, urls) = get_response L (mock_urls self) match request;
          self = self\<lparr>mock_urls := urls\<rparr>
      in case response of
           Inl e \<Rightarrow> (Inl e, self)
         | Inr PyNone \<Rightarrow>
             (let error_msg = ''Connection refused: '' @ pr_url request;
                  response = ConnectionError error_msg
              in (Inl response,
                  self\<lparr>mock_calls := CallList_add (mock_calls self) request (Failed response)\<rparr>))
         | Inr PyOther \<Rightarrow> (Inl AttributeError, self)
         | Inr (PyResponse r) \<Rightarrow>
             (let response = as_requests_response r request
              in (Inr response,
                  self\<lparr>mock_calls := CallList_add (mock_calls self) request (Returned response)\<rparr>)))"

text \<open>
  A run of dispatches one after the other, each on the state the one before left; a
  dispatch that raises does not stop the run (the caller catches the exception).
\<close>

fun dispatch_all :: "stdlib \<Rightarrow> mock \<Rightarrow> prepared_request list \<Rightarrow> outcome list \<times> mock" where
  "dispatch_all L self [] = ([], self)"
| "dispatch_all L self (request # rest) =
     (let (out, self) = on_request L self request;
          (outs, self) = dispatch_all L self rest
      in (out # outs, self))"

section \<open>The session controller\<close>




text \<open>\<^verbatim>\<open>RequestsMock()\<close>: an empty call list, then \<^verbatim>\<open>reset\<close>.\<close>

definition new_mock :: mock where
  "new_mock =
     reset \<lparr>mock_urls = [], mock_calls = [], mock_patcher = None,
            session_send = OriginalSend\<rparr>"

section \<open>Notions used to state the properties\<close>

text \<open>
  The position of the expectation a request resolves through, if any: the position
  part of what \<^verbatim>\<open>_find_match\<close> returns.
\<close>

definition match_index :: "expectation list \<Rightarrow> prepared_request \<Rightarrow> nat option" where
  "match_index urls request = map_option fst (find_match urls request)"

text \<open>What the matcher reads of an expectation.\<close>

definition pattern_of :: "expectation \<Rightarrow> string \<times> string \<times> bool" where
  "pattern_of m = (m_method m, m_url m, m_match_querystring m)"

text \<open>
  The outcomes of a dispatch after which a call has been appended: a returned response,
  and the \<open>ConnectionError\<close> of the dispatcher. \<open>slot_of\<close> is what the second slot of
  that call holds.
\<close>

fun recorded :: "outcome \<Rightarrow> bool" where
  "recorded (Inr response) = True"
| "recorded (Inl (ConnectionError msg)) = True"
| "recorded (Inl e) = False"

fun slot_of :: "outcome \<Rightarrow> call_slot" where
  "slot_of (Inr response) = Returned response"
| "slot_of (Inl e) = Failed e"

section \<open>Constants and sample values\<close>

text \<open>The method names of \<^verbatim>\<open>class RequestsMock\<close>.\<close>

definition DELETE :: string where "DELETE = ''DELETE''"
definition GET :: string where "GET = ''GET''"
definition HEAD :: string where "HEAD = ''HEAD''"
definition OPTIONS :: string where "OPTIONS = ''OPTIONS''"
definition PATCH :: string where "PATCH = ''PATCH''"
definition POST :: string where "POST = ''POST''"
definition PUT :: string where "PUT = ''PUT''"

text \<open>\<^verbatim>\<open>Response()\<close> with the default arguments of \<^verbatim>\<open>__init__\<close>.\<close>

definition default_response :: response where
  "default_response =
     \<lparr>body = [], status = 200, adding_headers = None, stream = False,
      content_type = ''text/plain''\<rparr>"

text \<open>A prepared request without headers or body, used in the examples.\<close>

definition plain_request :: "string \<Rightarrow> string \<Rightarrow> prepared_request" where
  "plain_request meth u = \<lparr>pr_method = meth, pr_url = u, pr_headers = [], pr_body = None\<rparr>"




text \<open>
  A stand-in for the library in the examples: the query is what follows the first
  question mark, \<^verbatim>\<open>parse_qsl(None)\<close> raises, and no pairs are parsed out of a string.
\<close>

definition sample_lib :: stdlib where
  "sample_lib =
     \<lparr>lib_query = (\<lambda>u. Inr (drop 1 (dropWhile (\<lambda>c. c \<noteq> CHR ''?'') u))),
      lib_parse_qsl = (\<lambda>q. case q of None \<Rightarrow> Inl ''AttributeError'' | Some _ \<Rightarrow> Inr [])\<rparr>"

section \<open>The escaped pattern is a literal prefix\<close>

lemma alphanum_not_special: "alphanum c \<Longrightarrow> c \<noteq> backslash \<and> c \<noteq> NUL"
  by (auto simp: alphanum_def backslash_def NUL_def)

lemma zero_alphanum: "alphanum CHR ''0''"
  by (simp add: alphanum_def)

lemma sre_literals_Oct0:
  "sre_literals (Oct 0 v) s = map_option ((#) (char_of v)) (sre_literals Plain s)"
  by (cases s) simp_all

lemma char_of_0: "char_of (0::nat) = NUL"
  by (simp add: NUL_def char_of_def)

lemma octdigit0: "octdigit CHR ''0''" "octval CHR ''0'' = 0"
  by (simp_all add: octdigit_def octval_def)

lemma sre_literals_escape: "sre_literals Plain (re_escape p) = Some p"
proof (induction p)
  case Nil
  show ?case by simp
next
  case (Cons c cs)
  show ?case
  proof (cases "alphanum c")
    case True
    then show ?thesis using Cons alphanum_not_special [of c] by simp
  next
    case False
    show ?thesis
    proof (cases "c = NUL")
      case True
      have "c \<noteq> backslash" using True by (simp add: NUL_def backslash_def)
      then show ?thesis using True False Cons
        by (simp add: octdigit0 sre_literals_Oct0 char_of_0)
    next
      case nz: False
      have "c \<noteq> CHR ''0''" using False zero_alphanum by auto
      then show ?thesis using False nz Cons by simp
    qed
  qed
qed

lemma startswith_iff: "startswith s p \<longleftrightarrow> (\<exists>rest. s = p @ rest)"
  by (induction s p rule: startswith.induct) auto

lemma re_match_escape: "re_match (re_escape p) s = Some (\<exists>rest. s = p @ rest)"
  by (simp add: re_match_def sre_literals_escape startswith_iff)

lemma match_ok_iff:
  "match_ok request m \<longleftrightarrow>
     pr_method request = m_method m \<and>
     (if m_match_querystring m then (\<exists>rest. pr_url request = m_url m @ rest)
      else m_url m = takeWhile (\<lambda>c. c \<noteq> CHR ''?'') (pr_url request))"
  by (auto simp: match_ok_def re_match_escape split_first_def split: bool.splits)

section \<open>The matcher returns the first expectation that matches\<close>

lemma find_match_from_None:
  "find_match_from k us r = None \<longleftrightarrow> (\<forall>m\<in>set us. \<not> match_ok r m)"
  by (induction us arbitrary: k) auto

lemma find_match_from_Some:
  "find_match_from k us r = Some (i, m) \<longleftrightarrow>
     (\<exists>n. i = k + n \<and> n < length us \<and> us ! n = m \<and> match_ok r m \<and>
          (\<forall>j<n. \<not> match_ok r (us ! j)))"
proof (induction us arbitrary: k)
  case Nil
  show ?case by simp
next
  case (Cons u us)
  show ?case
  proof (cases "match_ok r u")
    case True
    have "(\<exists>n. i = k + n \<and> n < length (u # us) \<and> (u # us) ! n = m \<and> match_ok r m \<and>
            (\<forall>j<n. \<not> match_ok r ((u # us) ! j))) \<longleftrightarrow> (i = k \<and> m = u)"
    proof
      assume "\<exists>n. i = k + n \<and> n < length (u # us) \<and> (u # us) ! n = m \<and> match_ok r m \<and>
            (\<forall>j<n. \<not> match_ok r ((u # us) ! j))"
      then obtain n where n: "i = k + n" "(u # us) ! n = m"
        "\<forall>j<n. \<not> match_ok r ((u # us) ! j)" by blast
      have "n = 0"
      proof (rule ccontr)
        assume "n \<noteq> 0"
        then have "\<not> match_ok r ((u # us) ! 0)" using n(3) by blast
        then show False using True by simp
      qed
      then show "i = k \<and> m = u" using n by simp
    next
      assume "i = k \<and> m = u"
      then show "\<exists>n. i = k + n \<and> n < length (u # us) \<and> (u # us) ! n = m \<and> match_ok r m \<and>
            (\<forall>j<n. \<not> match_ok r ((u # us) ! j))"
        using True by (intro exI [of _ 0]) simp
    qed
    then show ?thesis using True by auto
  next
    case False
    have "(\<exists>n. i = k + n \<and> n < length (u # us) \<and> (u # us) ! n = m \<and> match_ok r m \<and>
            (\<forall>j<n. \<not> match_ok r ((u # us) ! j))) \<longleftrightarrow>
          (\<exists>n. i = Suc k + n \<and> n < length us \<and> us ! n = m \<and> match_ok r m \<and>
            (\<forall>j<n. \<not> match_ok r (us ! j)))" (is "?L \<longleftrightarrow> ?R")
    proof
      assume ?L
      then obtain n where n: "i = k + n" "n < length (u # us)" "(u # us) ! n = m"
        "match_ok r m" "\<forall>j<n. \<not> match_ok r ((u # us) ! j)" by blast
      have "n \<noteq> 0" using n(3,4) False by (cases n) auto
      then obtain n' where n': "n = Suc n'" by (cases n) auto
      have "\<forall>j<n'. \<not> match_ok r (us ! j)"
      proof (intro allI impI)
        fix j assume "j < n'"
        then have "Suc j < n" using n' by simp
        then have "\<not> match_ok r ((u # us) ! Suc j)" using n(5) by blast
        then show "\<not> match_ok r (us ! j)" by simp
      qed
      then show ?R using n n' by (intro exI [of _ n']) simp
    next
      assume ?R
      then obtain n where n: "i = Suc k + n" "n < length us" "us ! n = m"
        "match_ok r m" "\<forall>j<n. \<not> match_ok r (us ! j)" by blast
      have "\<forall>j<Suc n. \<not> match_ok r ((u # us) ! j)"
      proof (intro allI impI)
        fix j assume j: "j < Suc n"
        show "\<not> match_ok r ((u # us) ! j)"
          using j n(5) False by (cases j) auto
      qed
      then show ?L using n by (intro exI [of _ "Suc n"]) simp
    qed
    then show ?thesis using False Cons [of "Suc k"] by simp
  qed
qed

lemma find_match_None: "find_match us r = None \<longleftrightarrow> (\<forall>m\<in>set us. \<not> match_ok r m)"
  by (simp add: find_match_def find_match_from_None)

lemma find_match_Some:
  "find_match us r = Some (i, m) \<longleftrightarrow>
     i < length us \<and> us ! i = m \<and> match_ok r m \<and> (\<forall>j<i. \<not> match_ok r (us ! j))"
  by (simp add: find_match_def find_match_from_Some)

lemma urls_add:
  "mock_urls (add self meth u q se resp) =
     mock_urls self @
       [\<lparr>m_url = (if count_char CHR ''/'' u = 2
                  then (if q then replace_first CHR ''?'' ''/?'' u else u @ ''/'')
                  else u),
         m_method = meth, m_match_querystring = q,
         m_side_effect = (case se of SSequence items \<Rightarrow> SIterator items | other \<Rightarrow> other),
         m_response = resp\<rparr>]"
  by (simp add: add_def Let_def)

text \<open>
  C3. For an expectation and a request with equal methods: with query-string matching
  the expectation matches exactly when the request's full URL begins with the stored
  pattern, taken literally; without it, exactly when the stored pattern equals the
  request URL cut at its first question mark.
\<close>

theorem url_match_rule:
  "pr_method request = m_method m \<Longrightarrow>
   match_ok request m \<longleftrightarrow>
     (if m_match_querystring m then (\<exists>rest. pr_url request = m_url m @ rest)
      else m_url m = takeWhile (\<lambda>c. c \<noteq> CHR ''?'') (pr_url request))"
  by (auto simp: match_ok_def re_match_escape split_first_def split: bool.splits)

theorem url_match_rule_witness:
  "pr_method (plain_request GET ''http://x.test/?a=1&b=2'') =
     m_method \<lparr>m_url = ''http://x.test/?a=1'', m_method = GET, m_match_querystring = True,
               m_side_effect = SNone, m_response = default_response\<rparr> \<and>
   match_ok (plain_request GET ''http://x.test/?a=1&b=2'')
     \<lparr>m_url = ''http://x.test/?a=1'', m_method = GET, m_match_querystring = True,
      m_side_effect = SNone, m_response = default_response\<rparr> \<and>
   \<not> match_ok (plain_request GET ''http://x.test/?a=2'')
     \<lparr>m_url = ''http://x.test/?a=1'', m_method = GET, m_match_querystring = True,
      m_side_effect = SNone, m_response = default_response\<rparr> \<and>
   match_ok (plain_request GET ''http://x.test/p?a=2'')
     \<lparr>m_url = ''http://x.test/p'', m_method = GET, m_match_querystring = False,
      m_side_effect = SNone, m_response = default_response\<rparr>"
  using
    url_match_rule [of "plain_request GET ''http://x.test/?a=1&b=2''"
      "\<lparr>m_url = ''http://x.test/?a=1'', m_method = GET, m_match_querystring = True,
        m_side_effect = SNone, m_response = default_response\<rparr>"]
    url_match_rule [of "plain_request GET ''http://x.test/?a=2''"
      "\<lparr>m_url = ''http://x.test/?a=1'', m_method = GET, m_match_querystring = True,
        m_side_effect = SNone, m_response = default_response\<rparr>"]
    url_match_rule [of "plain_request GET ''http://x.test/p?a=2''"
      "\<lparr>m_url = ''http://x.test/p'', m_method = GET, m_match_querystring = False,
        m_side_effect = SNone, m_response = default_response\<rparr>"]
  by (simp add: plain_request_def)

text \<open>
  C1. An expectation matches a request when the methods are equal and the URL pattern
  matches. The matcher scans the expectations in registration order and returns the
  first one that matches (none when no expectation matches); so after registering A and
  then B, a request that A matches and that nothing registered before A matches
  resolves through A. The result is a function of the registry and the request.
\<close>

theorem find_match_first_wins:
  "(match_ok request m \<longleftrightarrow>
      pr_method request = m_method m \<and>
      (if m_match_querystring m then (\<exists>rest. pr_url request = m_url m @ rest)
       else m_url m = takeWhile (\<lambda>c. c \<noteq> CHR ''?'') (pr_url request))) \<and>
   (find_match urls request = None \<longleftrightarrow> (\<forall>m\<in>set urls. \<not> match_ok request m)) \<and>
   (find_match urls request = Some (i, m) \<longleftrightarrow>
      i < length urls \<and> urls ! i = m \<and> match_ok request m \<and>
      (\<forall>j<i. \<not> match_ok request (urls ! j))) \<and>
   ((\<forall>m\<in>set (mock_urls self). \<not> match_ok request m) \<longrightarrow>
    match_ok request (last (mock_urls (add self methA uA qA seA respA))) \<longrightarrow>
    find_match
      (mock_urls (add (add self methA uA qA seA respA) methB uB qB seB respB)) request =
      Some (length (mock_urls self), last (mock_urls (add self methA uA qA seA respA))))"
proof (intro conjI impI)
  show "match_ok request m \<longleftrightarrow>
      pr_method request = m_method m \<and>
      (if m_match_querystring m then (\<exists>rest. pr_url request = m_url m @ rest)
       else m_url m = takeWhile (\<lambda>c. c \<noteq> CHR ''?'') (pr_url request))"
    by (rule match_ok_iff)
next
  show "find_match urls request = None \<longleftrightarrow> (\<forall>m\<in>set urls. \<not> match_ok request m)"
    by (rule find_match_None)
next
  show "find_match urls request = Some (i, m) \<longleftrightarrow>
      i < length urls \<and> urls ! i = m \<and> match_ok request m \<and>
      (\<forall>j<i. \<not> match_ok request (urls ! j))"
    by (rule find_match_Some)
next
  assume none: "\<forall>m\<in>set (mock_urls self). \<not> match_ok request m"
    and a: "match_ok request (last (mock_urls (add self methA uA qA seA respA)))"
  show "find_match
        (mock_urls (add (add self methA uA qA seA respA) methB uB qB seB respB)) request =
        Some (length (mock_urls self), last (mock_urls (add self methA uA qA seA respA)))"
    using none a by (simp add: find_match_Some urls_add nth_append)
qed

theorem find_match_first_wins_witness:
  "mock_urls new_mock = [] \<and>
   match_ok (plain_request GET ''http://x.test/a?q=1'')
     (last (mock_urls (add new_mock GET ''http://x.test/a'' False SNone default_response))) \<and>
   find_match
     (mock_urls (add (add new_mock GET ''http://x.test/a'' False SNone default_response)
                  GET ''http://x.test/a'' False SNone (default_response\<lparr>status := 404\<rparr>)))
     (plain_request GET ''http://x.test/a?q=1'') =
     Some (0, \<lparr>m_url = ''http://x.test/a'', m_method = GET, m_match_querystring = False,
               m_side_effect = SNone, m_response = default_response\<rparr>)"
proof -
  have none: "\<forall>m\<in>set (mock_urls new_mock).
      \<not> match_ok (plain_request GET ''http://x.test/a?q=1'') m"
    by (simp add: new_mock_def reset_def)
  have a: "match_ok (plain_request GET ''http://x.test/a?q=1'')
     (last (mock_urls (add new_mock GET ''http://x.test/a'' False SNone default_response)))"
    by (simp add: urls_add count_char_def match_ok_def split_first_def plain_request_def)
  have "find_match
     (mock_urls (add (add new_mock GET ''http://x.test/a'' False SNone default_response)
                  GET ''http://x.test/a'' False SNone (default_response\<lparr>status := 404\<rparr>)))
     (plain_request GET ''http://x.test/a?q=1'') =
     Some (length (mock_urls new_mock),
           last (mock_urls (add new_mock GET ''http://x.test/a'' False SNone default_response)))"
    using find_match_first_wins [where request = "plain_request GET ''http://x.test/a?q=1''"
        and self = new_mock and methA = GET and uA = "''http://x.test/a''" and qA = False
        and seA = SNone and respA = default_response
        and methB = GET and uB = "''http://x.test/a''" and qB = False
        and seB = SNone and respB = "default_response\<lparr>status := 404\<rparr>"]
      none a by blast
  then show ?thesis using none a
    by (simp add: urls_add count_char_def new_mock_def reset_def)
qed

section \<open>Host-only patterns\<close>









section \<open>One dispatch\<close>

lemma on_request_None:
  assumes "find_match (mock_urls self) request = None"
  shows "on_request L self request =
     (Inl (ConnectionError (''Connection refused: '' @ pr_url request)),
      self\<lparr>mock_calls := mock_calls self @
         [Call request (Failed (ConnectionError (''Connection refused: '' @ pr_url request)))]\<rparr>)"
  using assms by (simp add: on_request_def get_response_def CallList_add_def Let_def)

text \<open>
  C2. When no registered expectation matches the request, the dispatch raises a
  \<open>ConnectionError\<close> whose message ends with the request's URL and appends exactly one
  call, the pair of the request and that error; nothing else changes and there is no
  second attempt.
\<close>

theorem unmatched_request_refused:
  assumes "\<forall>m\<in>set (mock_urls self). \<not> match_ok request m"
  shows "on_request L self request =
     (Inl (ConnectionError (''Connection refused: '' @ pr_url request)),
      self\<lparr>mock_calls := mock_calls self @
         [Call request (Failed (ConnectionError (''Connection refused: '' @ pr_url request)))]\<rparr>)"
  using assms by (simp add: on_request_None find_match_None)

theorem unmatched_request_refused_witness:
  "on_request sample_lib
     (add new_mock GET ''http://x.test/a'' False SNone default_response)
     (plain_request POST ''http://x.test/a'') =
     (Inl (ConnectionError ''Connection refused: http://x.test/a''),
      \<lparr>mock_urls = [\<lparr>m_url = ''http://x.test/a'', m_method = GET, m_match_querystring = False,
               m_side_effect = SNone, m_response = default_response\<rparr>],
       mock_calls = [Call (plain_request POST ''http://x.test/a'')
          (Failed (ConnectionError ''Connection refused: http://x.test/a''))],
       mock_patcher = None, session_send = OriginalSend\<rparr>)"
proof -
  have "\<forall>m\<in>set (mock_urls (add new_mock GET ''http://x.test/a'' False SNone default_response)).
          \<not> match_ok (plain_request POST ''http://x.test/a'') m"
    by (simp add: urls_add new_mock_def reset_def match_ok_def plain_request_def GET_def POST_def)
  from unmatched_request_refused [OF this, of sample_lib] show ?thesis
    by (simp add: add_def new_mock_def reset_def CallList_reset_def count_char_def
        plain_request_def)
qed

text \<open>
  C9. When the matched expectation's callback returns \<^verbatim>\<open>None\<close>, the dispatch does what
  it does when nothing matches: it records the request with a \<open>ConnectionError\<close> naming
  the URL and raises that error.
\<close>

theorem callback_none_is_refused:
  assumes "find_match (mock_urls self) request = Some (i, m)"
    and "m_side_effect m = SCallable cb"
    and "from_prepared_request L request = Inr rq"
    and "cb rq = Inr PyNone"
  shows "on_request L self request =
     (Inl (ConnectionError (''Connection refused: '' @ pr_url request)),
      self\<lparr>mock_calls := mock_calls self @
         [Call request (Failed (ConnectionError (''Connection refused: '' @ pr_url request)))]\<rparr>)
    \<and> fst (on_request L self request) = fst (on_request L (self\<lparr>mock_urls := []\<rparr>) request)
    \<and> mock_calls (snd (on_request L self request)) =
        mock_calls (snd (on_request L (self\<lparr>mock_urls := []\<rparr>) request))"
proof -
  have "find_match (mock_urls (self\<lparr>mock_urls := []\<rparr>)) request = None"
    by (simp add: find_match_def)
  from on_request_None [OF this, of L] show ?thesis using assms
    by (simp add: on_request_def get_response_def CallList_add_def Let_def)
qed

theorem callback_none_is_refused_witness:
  "fst (on_request sample_lib
          (add new_mock POST ''http://x.test/cb'' False (SCallable (\<lambda>r. Inr PyNone))
             default_response)
          \<lparr>pr_method = POST, pr_url = ''http://x.test/cb'', pr_headers = [],
           pr_body = Some ''a=1''\<rparr>) =
     Inl (ConnectionError ''Connection refused: http://x.test/cb'') \<and>
   mock_calls (snd (on_request sample_lib
          (add new_mock POST ''http://x.test/cb'' False (SCallable (\<lambda>r. Inr PyNone))
             default_response)
          \<lparr>pr_method = POST, pr_url = ''http://x.test/cb'', pr_headers = [],
           pr_body = Some ''a=1''\<rparr>)) =
     [Call \<lparr>pr_method = POST, pr_url = ''http://x.test/cb'', pr_headers = [],
            pr_body = Some ''a=1''\<rparr>
        (Failed (ConnectionError ''Connection refused: http://x.test/cb''))]"
proof -
  let ?r = "\<lparr>pr_method = POST, pr_url = ''http://x.test/cb'', pr_headers = [],
             pr_body = Some ''a=1''\<rparr>"
  let ?cb = "\<lambda>r::request. (Inr PyNone :: string + pyobj)"
  let ?m = "\<lparr>m_url = ''http://x.test/cb'', m_method = POST, m_match_querystring = False,
             m_side_effect = SCallable ?cb, m_response = default_response\<rparr>"
  let ?s = "add new_mock POST ''http://x.test/cb'' False (SCallable ?cb) default_response"
  let ?rq = "\<lparr>rq_method = POST, rq_url = ''http://x.test/cb'', rq_headers = [],
              rq_params = dict_of [], rq_data = dict_of []\<rparr>"
  have f: "find_match (mock_urls ?s) ?r = Some (0, ?m)"
    by (simp add: find_match_Some urls_add new_mock_def reset_def count_char_def
        match_ok_def split_first_def)
  have se: "m_side_effect ?m = SCallable ?cb" by simp
  have fp: "from_prepared_request sample_lib ?r = Inr ?rq"
    by (simp add: from_prepared_request_def sample_lib_def)
  have cb: "?cb ?rq = Inr PyNone" by simp
  from callback_none_is_refused [OF f se fp cb] show ?thesis
    by (simp add: add_def new_mock_def reset_def CallList_reset_def)
qed

text \<open>
  C10. A dispatch that fails because the matched sequence is exhausted, or because the
  matched callback raises, leaves the whole state as it was: no call is appended and the
  registry is unchanged. A dispatch that raises and did append a call raised the
  \<open>ConnectionError\<close> of the branch taken when there is no response.
\<close>

theorem failed_resolution_leaves_state:
  "(find_match (mock_urls self) request = Some (i, m) \<longrightarrow> m_side_effect m = SIterator [] \<longrightarrow>
      on_request L self request = (Inl StopIteration, self)) \<and>
   (find_match (mock_urls self) request = Some (i, m) \<longrightarrow> m_side_effect m = SCallable cb \<longrightarrow>
      from_prepared_request L request = Inr rq \<longrightarrow> cb rq = Inl e \<longrightarrow>
      on_request L self request = (Inl (CallbackFailure e), self)) \<and>
   (on_request L self request = (Inl e', self') \<longrightarrow> mock_calls self' \<noteq> mock_calls self \<longrightarrow>
      e' = ConnectionError (''Connection refused: '' @ pr_url request) \<and>
      fst (get_response L (mock_urls self) (find_match (mock_urls self) request) request) =
        Inr PyNone)"
  by (auto simp: on_request_def get_response_def CallList_add_def Let_def
      split: option.splits sum.splits pyobj.splits side_effect_t.splits list.splits prod.splits)

theorem failed_resolution_leaves_state_witness:
  "on_request sample_lib (add new_mock GET ''http://x.test/s'' False (SSequence []) default_response)
     (plain_request GET ''http://x.test/s'') =
     (Inl StopIteration,
      add new_mock GET ''http://x.test/s'' False (SSequence []) default_response) \<and>
   on_request sample_lib
     (add new_mock POST ''http://x.test/cb'' False (SCallable (\<lambda>r. Inl ''boom''))
        default_response)
     \<lparr>pr_method = POST, pr_url = ''http://x.test/cb'', pr_headers = [],
      pr_body = Some ''a=1''\<rparr> =
     (Inl (CallbackFailure ''boom''),
      add new_mock POST ''http://x.test/cb'' False (SCallable (\<lambda>r. Inl ''boom''))
        default_response) \<and>
   fst (get_response sample_lib (mock_urls new_mock)
          (find_match (mock_urls new_mock) (plain_request GET ''http://x.test/s''))
          (plain_request GET ''http://x.test/s'')) = Inr PyNone"
proof -
  let ?r = "plain_request GET ''http://x.test/s''"
  let ?s = "add new_mock GET ''http://x.test/s'' False (SSequence []) default_response"
  let ?m = "\<lparr>m_url = ''http://x.test/s'', m_method = GET, m_match_querystring = False,
             m_side_effect = SIterator [], m_response = default_response\<rparr>"
  have f1: "find_match (mock_urls ?s) ?r = Some (0, ?m)"
    by (simp add: find_match_Some urls_add new_mock_def reset_def count_char_def
        match_ok_def split_first_def plain_request_def)
  have a: "on_request sample_lib ?s ?r = (Inl StopIteration, ?s)"
    using failed_resolution_leaves_state [of ?s ?r 0 ?m sample_lib] f1 by simp
  let ?r2 = "\<lparr>pr_method = POST, pr_url = ''http://x.test/cb'', pr_headers = [],
              pr_body = Some ''a=1''\<rparr>"
  let ?cb = "\<lambda>r::request. (Inl ''boom'' :: string + pyobj)"
  let ?m2 = "\<lparr>m_url = ''http://x.test/cb'', m_method = POST, m_match_querystring = False,
              m_side_effect = SCallable ?cb, m_response = default_response\<rparr>"
  let ?s2 = "add new_mock POST ''http://x.test/cb'' False (SCallable ?cb) default_response"
  let ?rq = "\<lparr>rq_method = POST, rq_url = ''http://x.test/cb'', rq_headers = [],
              rq_params = dict_of [], rq_data = dict_of []\<rparr>"
  have f2: "find_match (mock_urls ?s2) ?r2 = Some (0, ?m2)"
    by (simp add: find_match_Some urls_add new_mock_def reset_def count_char_def
        match_ok_def split_first_def)
  have fp: "from_prepared_request sample_lib ?r2 = Inr ?rq"
    by (simp add: from_prepared_request_def sample_lib_def)
  have b: "on_request sample_lib ?s2 ?r2 = (Inl (CallbackFailure ''boom''), ?s2)"
    using failed_resolution_leaves_state [of ?s2 ?r2 0 ?m2 sample_lib ?cb ?rq "''boom''"]
      f2 fp by simp
  let ?e = "ConnectionError (''Connection refused: '' @ pr_url ?r)"
  let ?s3 = "new_mock\<lparr>mock_calls := mock_calls new_mock @ [Call ?r (Failed ?e)]\<rparr>"
  have n: "find_match (mock_urls new_mock) ?r = None"
    by (simp add: find_match_None new_mock_def reset_def)
  have o: "on_request sample_lib new_mock ?r = (Inl ?e, ?s3)"
    by (rule on_request_None [OF n])
  have ch: "mock_calls ?s3 \<noteq> mock_calls new_mock" by simp
  have c: "fst (get_response sample_lib (mock_urls new_mock)
          (find_match (mock_urls new_mock) ?r) ?r) = Inr PyNone"
    using failed_resolution_leaves_state [of new_mock ?r 0 ?m sample_lib ?cb ?rq "''boom''"
        ?e ?s3] o ch by blast
  from a b c show ?thesis by simp
qed

section \<open>The session wrapper\<close>






section \<open>Runs of dispatches\<close>

lemmas run_defs =
  on_request_def get_response_def find_match_def match_ok_def split_first_def Let_def
  add_def new_mock_def reset_def CallList_reset_def CallList_add_def count_char_def
  plain_request_def

lemma match_ok_pattern: "pattern_of m = pattern_of m' \<Longrightarrow> match_ok r m = match_ok r m'"
  by (simp add: pattern_of_def match_ok_def)

lemma find_match_from_patterns:
  "map pattern_of us = map pattern_of us' \<Longrightarrow>
   map_option fst (find_match_from k us r) = map_option fst (find_match_from k us' r)"
proof (induction us arbitrary: us' k)
  case Nil
  then show ?case by simp
next
  case (Cons u us)
  from Cons.prems obtain u' vs where us': "us' = u' # vs" by (cases us') auto
  with Cons.prems have p: "pattern_of u = pattern_of u'" "map pattern_of us = map pattern_of vs"
    by simp_all
  have ih: "map_option fst (find_match_from (Suc k) us r) =
            map_option fst (find_match_from (Suc k) vs r)"
    by (rule Cons.IH [OF p(2)])
  have mo: "match_ok r u = match_ok r u'" by (rule match_ok_pattern [OF p(1)])
  show ?case unfolding us' using ih mo by simp
qed

lemma match_index_patterns:
  "map pattern_of us = map pattern_of us' \<Longrightarrow> match_index us r = match_index us' r"
  using find_match_from_patterns [of us us' 0 r] by (simp add: match_index_def find_match_def)

lemma get_response_urls:
  "snd (get_response L us mt r) =
     (case mt of
        None \<Rightarrow> us
      | Some (j, m) \<Rightarrow>
          (case m_side_effect m of
             SIterator (x # xs) \<Rightarrow> us[j := m\<lparr>m_side_effect := SIterator xs\<rparr>]
           | _ \<Rightarrow> us))"
  by (simp add: get_response_def
      split: option.splits prod.splits side_effect_t.splits sum.splits list.splits)

lemma on_request_urls_get:
  "mock_urls (snd (on_request L s r)) =
     snd (get_response L (mock_urls s) (find_match (mock_urls s) r) r)"
  by (simp add: on_request_def Let_def split: prod.splits sum.splits pyobj.splits)

lemma on_request_urls:
  "mock_urls (snd (on_request L s r)) =
     (case find_match (mock_urls s) r of
        None \<Rightarrow> mock_urls s
      | Some (j, m) \<Rightarrow>
          (case m_side_effect m of
             SIterator (x # xs) \<Rightarrow> (mock_urls s)[j := m\<lparr>m_side_effect := SIterator xs\<rparr>]
           | _ \<Rightarrow> mock_urls s))"
  by (simp only: on_request_urls_get get_response_urls)

lemma on_request_patterns:
  "map pattern_of (mock_urls (snd (on_request L s r))) = map pattern_of (mock_urls s)"
proof (cases "find_match (mock_urls s) r")
  case None
  then show ?thesis by (simp add: on_request_urls)
next
  case (Some jm)
  obtain j m where jm: "jm = (j, m)" by (cases jm)
  from Some jm have m: "j < length (mock_urls s)" "mock_urls s ! j = m"
    by (simp_all add: find_match_Some)
  have "map pattern_of ((mock_urls s)[j := m\<lparr>m_side_effect := e\<rparr>]) = map pattern_of (mock_urls s)"
    for e
  proof -
    have "pattern_of (m\<lparr>m_side_effect := e\<rparr>) = map pattern_of (mock_urls s) ! j"
      using m by (simp add: pattern_of_def)
    then show ?thesis by (simp add: map_update)
  qed
  then show ?thesis using Some jm
    by (simp add: on_request_urls split: side_effect_t.splits list.splits)
qed

lemma match_index_stable:
  "match_index (mock_urls (snd (on_request L s r))) r' = match_index (mock_urls s) r'"
  by (rule match_index_patterns [OF on_request_patterns])

lemma on_request_length:
  "length (mock_urls (snd (on_request L s r))) = length (mock_urls s)"
  using arg_cong [OF on_request_patterns, of length L s r] by simp

lemma match_index_Some:
  "match_index us r = Some i \<longleftrightarrow> find_match us r = Some (i, us ! i)"
  by (cases "find_match us r") (auto simp: match_index_def find_match_Some)

lemma on_request_other_entry:
  "match_index (mock_urls s) r \<noteq> Some i \<Longrightarrow>
   mock_urls (snd (on_request L s r)) ! i = mock_urls s ! i"
  by (auto simp: on_request_urls match_index_def
      split: option.splits side_effect_t.splits list.splits)

lemma on_request_fixed:
  "find_match (mock_urls s) r = Some (i, m) \<Longrightarrow> m_side_effect m = SNone \<Longrightarrow>
   on_request L s r =
     (Inr (as_requests_response (m_response m) r),
      s\<lparr>mock_calls := mock_calls s @ [Call r (Returned (as_requests_response (m_response m) r))]\<rparr>)"
  by (simp add: on_request_def get_response_def Let_def CallList_add_def)

lemma on_request_next:
  "find_match (mock_urls s) r = Some (i, m) \<Longrightarrow>
   m_side_effect m = SIterator (PyResponse R # xs) \<Longrightarrow>
   on_request L s r =
     (Inr (as_requests_response R r),
      s\<lparr>mock_urls := (mock_urls s)[i := m\<lparr>m_side_effect := SIterator xs\<rparr>],
        mock_calls := mock_calls s @ [Call r (Returned (as_requests_response R r))]\<rparr>)"
  by (simp add: on_request_def get_response_def Let_def CallList_add_def)

lemma on_request_exhausted:
  "find_match (mock_urls s) r = Some (i, m) \<Longrightarrow> m_side_effect m = SIterator [] \<Longrightarrow>
   on_request L s r = (Inl StopIteration, s)"
  by (simp add: on_request_def get_response_def Let_def)



lemma from_prepared_request_raises:
  "from_prepared_request L r = Inl e \<Longrightarrow> \<exists>x. e = LibraryFailure x"
  by (auto simp: from_prepared_request_def split: sum.splits)

lemma get_response_raises:
  "get_response L us m r = (Inl e, us') \<Longrightarrow> \<not> recorded (Inl e)"
  by (auto simp: get_response_def
      split: option.splits prod.splits side_effect_t.splits sum.splits list.splits
      dest: from_prepared_request_raises)

lemma on_request_calls:
  "on_request L s r = (out, s') \<Longrightarrow>
   mock_calls s' = mock_calls s @ (if recorded out then [Call r (slot_of out)] else [])"
  by (auto simp: on_request_def CallList_add_def Let_def
      split: prod.splits sum.splits pyobj.splits dest: get_response_raises)

lemma dispatch_all_length: "dispatch_all L s reqs = (outs, s') \<Longrightarrow> length outs = length reqs"
  by (induction reqs arbitrary: s outs s') (auto split: prod.splits)

lemma dispatch_all_calls:
  "dispatch_all L s reqs = (outs, s') \<Longrightarrow>
   mock_calls s' = mock_calls s @
     map (\<lambda>(r, out). Call r (slot_of out)) (filter (\<lambda>(r, out). recorded out) (zip reqs outs))"
proof (induction reqs arbitrary: s outs s')
  case Nil
  then show ?case by simp
next
  case (Cons r reqs)
  obtain out s1 where step: "on_request L s r = (out, s1)" by (cases "on_request L s r")
  obtain outs1 s2 where rest: "dispatch_all L s1 reqs = (outs1, s2)"
    by (cases "dispatch_all L s1 reqs")
  from Cons.prems step rest have eq: "outs = out # outs1" "s' = s2" by simp_all
  from Cons.IH [OF rest] on_request_calls [OF step] eq show ?case by simp
qed

lemma getitem_nth: "k < length cs \<Longrightarrow> CallList_getitem cs (int k) = Inr (cs ! k)"
  by (simp add: CallList_getitem_def)

lemma filter_all_zip:
  "length xs = length ys \<Longrightarrow> \<forall>y\<in>set ys. P y \<Longrightarrow> filter (\<lambda>(x, y). P y) (zip xs ys) = zip xs ys"
  by (auto simp: filter_id_conv dest: set_zip_rightD)

text \<open>
  C7, as the claim states it: one dispatch would leave one call. A dispatch through an
  exhausted sequence raises \<open>StopIteration\<close> and leaves the call list empty.
\<close>

theorem call_recorder_counterexample:
  "dispatch_all sample_lib
     (add new_mock GET ''http://x.test/s'' False (SSequence []) default_response)
     [plain_request GET ''http://x.test/s''] =
     ([Inl StopIteration],
      add new_mock GET ''http://x.test/s'' False (SSequence []) default_response) \<and>
   CallList_len (mock_calls (snd (dispatch_all sample_lib
     (add new_mock GET ''http://x.test/s'' False (SSequence []) default_response)
     [plain_request GET ''http://x.test/s'']))) = 0"
  by (simp add: run_defs CallList_len_def)

text \<open>
  C7, amended. A run of dispatches appends, in dispatch order, one call for each dispatch
  that returned a response or raised the dispatcher's \<open>ConnectionError\<close>, and nothing
  for a dispatch that raised anything else; the calls already there stay in place and
  readable by index. So N dispatches that all returned or were refused leave exactly N
  new calls, the k-th of them the pair of the k-th request and its outcome.
\<close>

theorem call_recorder_ordering:
  assumes "dispatch_all L self requests = (outs, self')"
  shows "length outs = length requests \<and>
    mock_calls self' = mock_calls self @
      map (\<lambda>(r, out). Call r (slot_of out))
        (filter (\<lambda>(r, out). recorded out) (zip requests outs)) \<and>
    (\<forall>k<length (mock_calls self).
       CallList_getitem (mock_calls self') (int k) = Inr (mock_calls self ! k)) \<and>
    ((\<forall>out\<in>set outs. recorded out) \<longrightarrow>
       CallList_len (mock_calls self') = CallList_len (mock_calls self) + length requests \<and>
       (\<forall>k<length requests.
          CallList_getitem (mock_calls self') (int (CallList_len (mock_calls self) + k)) =
            Inr (Call (requests ! k) (slot_of (outs ! k)))))"
proof -
  let ?new = "map (\<lambda>(r, out). Call r (slot_of out))
        (filter (\<lambda>(r, out). recorded out) (zip requests outs))"
  have len: "length outs = length requests" by (rule dispatch_all_length [OF assms])
  have calls: "mock_calls self' = mock_calls self @ ?new" by (rule dispatch_all_calls [OF assms])
  have old: "\<forall>k<length (mock_calls self).
       CallList_getitem (mock_calls self') (int k) = Inr (mock_calls self ! k)"
    using calls by (simp add: getitem_nth nth_append)
  have all: "CallList_len (mock_calls self') = CallList_len (mock_calls self) + length requests \<and>
       (\<forall>k<length requests.
          CallList_getitem (mock_calls self') (int (CallList_len (mock_calls self) + k)) =
            Inr (Call (requests ! k) (slot_of (outs ! k))))"
    if rec: "\<forall>out\<in>set outs. recorded out"
  proof -
    have new: "?new = map (\<lambda>(r, out). Call r (slot_of out)) (zip requests outs)"
      using filter_all_zip [OF len [symmetric] rec] by simp
    have l: "length (mock_calls self') = length (mock_calls self) + length requests"
      using calls new len by simp
    have "CallList_getitem (mock_calls self') (int (length (mock_calls self) + k)) =
            Inr (Call (requests ! k) (slot_of (outs ! k)))" if k: "k < length requests" for k
    proof -
      have "length (mock_calls self) + k < length (mock_calls self')" using l k by simp
      then have "CallList_getitem (mock_calls self') (int (length (mock_calls self) + k)) =
          Inr (mock_calls self' ! (length (mock_calls self) + k))" by (rule getitem_nth)
      also have "mock_calls self' ! (length (mock_calls self) + k) =
          Call (requests ! k) (slot_of (outs ! k))"
        using calls new k len by (simp add: nth_append)
      finally show ?thesis .
    qed
    then show ?thesis using l by (simp add: CallList_len_def)
  qed
  from len calls old all show ?thesis by blast
qed


theorem call_recorder_ordering_witness:
  "mock_calls (snd (dispatch_all sample_lib
      (add new_mock GET ''http://x.test/a'' False SNone default_response)
      [plain_request GET ''http://x.test/a'', plain_request GET ''http://x.test/b''])) =
     [Call (plain_request GET ''http://x.test/a'')
        (Returned (as_requests_response default_response (plain_request GET ''http://x.test/a''))),
      Call (plain_request GET ''http://x.test/b'')
        (Failed (ConnectionError ''Connection refused: http://x.test/b''))] \<and>
   CallList_getitem (mock_calls (snd (dispatch_all sample_lib
      (add new_mock GET ''http://x.test/a'' False SNone default_response)
      [plain_request GET ''http://x.test/a'', plain_request GET ''http://x.test/b'']))) 1 =
     Inr (Call (plain_request GET ''http://x.test/b'')
        (Failed (ConnectionError ''Connection refused: http://x.test/b'')))"
proof -
  let ?s = "add new_mock GET ''http://x.test/a'' False SNone default_response"
  let ?ra = "plain_request GET ''http://x.test/a''"
  let ?rb = "plain_request GET ''http://x.test/b''"
  let ?oa = "Inr (as_requests_response default_response ?ra) :: outcome"
  let ?ob = "Inl (ConnectionError ''Connection refused: http://x.test/b'') :: outcome"
  define s' where "s' = snd (dispatch_all sample_lib ?s [?ra, ?rb])"
  have outs: "fst (dispatch_all sample_lib ?s [?ra, ?rb]) = [?oa, ?ob]"
    by (simp add: run_defs)
  have run: "dispatch_all sample_lib ?s [?ra, ?rb] = ([?oa, ?ob], s')"
    unfolding s'_def outs [symmetric] by (rule prod.collapse [symmetric])
  have rec: "\<forall>out\<in>set [?oa, ?ob]. recorded out" by simp
  have empty: "mock_calls ?s = []" by (simp add: run_defs)
  note ord = call_recorder_ordering [OF run]
  from ord have "mock_calls s' = mock_calls ?s @
      map (\<lambda>(r, out). Call r (slot_of out))
        (filter (\<lambda>(r, out). recorded out) (zip [?ra, ?rb] [?oa, ?ob]))"
    by (rule conjunct1 [OF conjunct2])
  then have new: "mock_calls s' = [Call ?ra (slot_of ?oa), Call ?rb (slot_of ?ob)]"
    using empty by simp
  from ord rec have "\<forall>k<length [?ra, ?rb].
      CallList_getitem (mock_calls s') (int (CallList_len (mock_calls ?s) + k)) =
        Inr (Call ([?ra, ?rb] ! k) (slot_of ([?oa, ?ob] ! k)))"
    by blast
  from this [rule_format, of 1]
  have get: "CallList_getitem (mock_calls s') 1 = Inr (Call ?rb (slot_of ?ob))"
    using empty by (simp add: CallList_len_def)
  from new get show ?thesis unfolding s'_def [symmetric] by simp
qed

lemma fixed_run:
  assumes "i < length (mock_urls s)"
    and "m_side_effect (mock_urls s ! i) = SNone"
    and "dispatch_all L s reqs = (outs, s')"
  shows "(\<forall>k<length reqs. match_index (mock_urls s) (reqs ! k) = Some i \<longrightarrow>
            outs ! k = Inr (as_requests_response (m_response (mock_urls s ! i)) (reqs ! k))) \<and>
         mock_urls s' ! i = mock_urls s ! i"
  using assms
proof (induction reqs arbitrary: s outs s')
  case Nil
  then show ?case by simp
next
  case (Cons r reqs)
  obtain out s1 where step: "on_request L s r = (out, s1)" by (cases "on_request L s r")
  obtain outs1 s2 where rest: "dispatch_all L s1 reqs = (outs1, s2)"
    by (cases "dispatch_all L s1 reqs")
  from Cons.prems(3) step rest have eq: "outs = out # outs1" "s' = s2" by simp_all
  have s1: "s1 = snd (on_request L s r)" using step by simp
  have len1: "i < length (mock_urls s1)" using Cons.prems(1) s1 by (simp add: on_request_length)
  have idx: "match_index (mock_urls s1) r' = match_index (mock_urls s) r'" for r'
    using s1 by (simp add: match_index_stable)
  have head: "out = Inr (as_requests_response (m_response (mock_urls s ! i)) r) \<and>
      mock_urls s1 = mock_urls s"
    if "match_index (mock_urls s) r = Some i"
  proof -
    from that have f: "find_match (mock_urls s) r = Some (i, mock_urls s ! i)"
      by (simp add: match_index_Some)
    from on_request_fixed [OF f Cons.prems(2), of L] step show ?thesis by auto
  qed
  have same: "mock_urls s1 ! i = mock_urls s ! i"
  proof (cases "match_index (mock_urls s) r = Some i")
    case True
    then show ?thesis using head by simp
  next
    case False
    then show ?thesis using s1 by (simp add: on_request_other_entry)
  qed
  have se: "m_side_effect (mock_urls s1 ! i) = SNone" using same Cons.prems(2) by simp
  note ih = Cons.IH [OF len1 se rest]
  have "outs ! k = Inr (as_requests_response (m_response (mock_urls s ! i)) ((r # reqs) ! k))"
    if k: "k < length (r # reqs)" and m: "match_index (mock_urls s) ((r # reqs) ! k) = Some i" for k
  proof (cases k)
    case 0
    then show ?thesis using m head eq by simp
  next
    case (Suc k')
    then show ?thesis using k m ih eq same idx by simp
  qed
  moreover have "mock_urls s' ! i = mock_urls s ! i" using ih eq same by simp
  ultimately show ?case by blast
qed

text \<open>
  C8. Resolving an expectation without side effect returns the stored response and
  leaves the registry as it is; in any run of dispatches, every dispatch that resolves
  through that expectation returns the response built from the same stored response,
  which is still in place afterwards.
\<close>

theorem fixed_response_reuse:
  assumes "i < length (mock_urls self)"
    and "m_side_effect (mock_urls self ! i) = SNone"
    and "dispatch_all L self requests = (outs, self')"
  shows "get_response L (mock_urls self) (Some (i, mock_urls self ! i)) request =
       (Inr (PyResponse (m_response (mock_urls self ! i))), mock_urls self) \<and>
     (\<forall>k<length requests. match_index (mock_urls self) (requests ! k) = Some i \<longrightarrow>
        outs ! k =
          Inr (as_requests_response (m_response (mock_urls self ! i)) (requests ! k))) \<and>
     mock_urls self' ! i = mock_urls self ! i"
  using fixed_run [OF assms] assms(2) by (simp add: get_response_def)

theorem fixed_response_reuse_witness:
  "fst (dispatch_all sample_lib
      (add new_mock GET ''http://x.test/a'' False SNone (default_response\<lparr>body := ''hello''\<rparr>))
      [plain_request GET ''http://x.test/a'', plain_request GET ''http://x.test/a'',
       plain_request GET ''http://x.test/a'']) =
     [Inr (as_requests_response (default_response\<lparr>body := ''hello''\<rparr>)
             (plain_request GET ''http://x.test/a'')),
      Inr (as_requests_response (default_response\<lparr>body := ''hello''\<rparr>)
             (plain_request GET ''http://x.test/a'')),
      Inr (as_requests_response (default_response\<lparr>body := ''hello''\<rparr>)
             (plain_request GET ''http://x.test/a''))]"
proof -
  let ?R = "default_response\<lparr>body := ''hello''\<rparr>"
  let ?s = "add new_mock GET ''http://x.test/a'' False SNone ?R"
  let ?r = "plain_request GET ''http://x.test/a''"
  define outs where "outs = fst (dispatch_all sample_lib ?s [?r, ?r, ?r])"
  define s' where "s' = snd (dispatch_all sample_lib ?s [?r, ?r, ?r])"
  have run: "dispatch_all sample_lib ?s [?r, ?r, ?r] = (outs, s')"
    unfolding outs_def s'_def by (rule prod.collapse [symmetric])
  have len: "length outs = 3" using dispatch_all_length [OF run] by simp
  have i: "0 < length (mock_urls ?s)" by (simp add: urls_add)
  have se: "m_side_effect (mock_urls ?s ! 0) = SNone"
    by (simp add: urls_add new_mock_def reset_def)
  have e: "mock_urls ?s ! 0 =
      \<lparr>m_url = ''http://x.test/a'', m_method = GET, m_match_querystring = False,
       m_side_effect = SNone, m_response = ?R\<rparr>"
    by (simp add: urls_add new_mock_def reset_def count_char_def)
  have mi: "match_index (mock_urls ?s) ?r = Some 0"
    by (simp add: match_index_def run_defs)
  from fixed_response_reuse [OF i se run] mi e
  have all: "\<forall>k<3. outs ! k = Inr (as_requests_response ?R ?r)"
    by (simp add: nth_Cons')
  have "outs = [Inr (as_requests_response ?R ?r), Inr (as_requests_response ?R ?r),
      Inr (as_requests_response ?R ?r)]"
    using len all by (simp add: list_eq_iff_nth_eq nth_Cons')
  then show ?thesis unfolding outs_def .
qed

lemma sequence_run:
  assumes "i < length (mock_urls s)"
    and "m_side_effect (mock_urls s ! i) = SIterator (map PyResponse rs)"
    and "dispatch_all L s reqs = (outs, s')"
    and "\<And>r. P r \<longleftrightarrow> match_index (mock_urls s) r = Some i"
  shows "map snd (filter (\<lambda>(r, out). P r) (zip reqs outs)) =
     map (\<lambda>(r, R). Inr (as_requests_response R r)) (zip (filter P reqs) rs) @
     replicate (length (filter P reqs) - length rs) (Inl StopIteration)"
  using assms
proof (induction reqs arbitrary: s rs outs s')
  case Nil
  then show ?case by simp
next
  case (Cons r reqs)
  obtain out s1 where step: "on_request L s r = (out, s1)" by (cases "on_request L s r")
  obtain outs1 s2 where rest: "dispatch_all L s1 reqs = (outs1, s2)"
    by (cases "dispatch_all L s1 reqs")
  from Cons.prems(3) step rest have eq: "outs = out # outs1" by simp
  have s1: "s1 = snd (on_request L s r)" using step by simp
  have len1: "i < length (mock_urls s1)" using Cons.prems(1) s1 by (simp add: on_request_length)
  have P1: "\<And>r'. P r' \<longleftrightarrow> match_index (mock_urls s1) r' = Some i"
    using Cons.prems(4) s1 by (simp add: match_index_stable)
  show ?case
  proof (cases "P r")
    case False
    then have "match_index (mock_urls s) r \<noteq> Some i" using Cons.prems(4) by simp
    then have "mock_urls s1 ! i = mock_urls s ! i" using s1 by (simp add: on_request_other_entry)
    then have se: "m_side_effect (mock_urls s1 ! i) = SIterator (map PyResponse rs)"
      using Cons.prems(2) by simp
    from Cons.IH [OF len1 se rest P1] False eq show ?thesis by simp
  next
    case True
    then have f: "find_match (mock_urls s) r = Some (i, mock_urls s ! i)"
      using Cons.prems(4) by (simp add: match_index_Some)
    show ?thesis
    proof (cases rs)
      case Nil
      then have ex: "m_side_effect (mock_urls s ! i) = SIterator []" using Cons.prems(2) by simp
      from on_request_exhausted [OF f ex, of L] step have o: "out = Inl StopIteration" "s1 = s"
        by simp_all
      have se: "m_side_effect (mock_urls s1 ! i) = SIterator (map PyResponse [])"
        using ex o by simp
      from Cons.IH [OF len1 se rest P1] True eq o Nil show ?thesis
        by (simp add: Suc_diff_le)
    next
      case (Cons R rs')
      then have nx: "m_side_effect (mock_urls s ! i) = SIterator (PyResponse R # map PyResponse rs')"
        using Cons.prems(2) by simp
      from on_request_next [OF f nx, of L] step
      have o: "out = Inr (as_requests_response R r)"
        "mock_urls s1 = (mock_urls s)[i := (mock_urls s ! i)\<lparr>m_side_effect := SIterator (map PyResponse rs')\<rparr>]"
        by auto
      have se: "m_side_effect (mock_urls s1 ! i) = SIterator (map PyResponse rs')"
        using o(2) Cons.prems(1) by simp
      from Cons.IH [OF len1 se rest P1] True eq o(1) Cons show ?thesis by simp
    qed
  qed
qed

text \<open>
  C4. After registering an expectation with the sequence \<^verbatim>\<open>[R1, ..., Rn]\<close> of responses
  as side effect, in any run of dispatches the k-th dispatch that resolves through it
  returns the response built from \<open>Rk\<close> as long as k is at most n, and every later such
  dispatch raises \<open>StopIteration\<close>, which the dispatcher lets through.
\<close>

theorem response_sequence_order:
  assumes "self = add self0 meth u q (SSequence (map PyResponse rs)) resp"
    and "dispatch_all L self requests = (outs, self')"
  shows "map snd (filter (\<lambda>(r, out). match_index (mock_urls self) r = Some (length (mock_urls self0)))
                   (zip requests outs)) =
     map (\<lambda>(r, R). Inr (as_requests_response R r))
       (zip (filter (\<lambda>r. match_index (mock_urls self) r = Some (length (mock_urls self0))) requests)
            rs) @
     replicate
       (length (filter (\<lambda>r. match_index (mock_urls self) r = Some (length (mock_urls self0)))
                  requests) - length rs)
       (Inl StopIteration)"
proof -
  have len: "length (mock_urls self0) < length (mock_urls self)"
    using assms(1) by (simp add: urls_add)
  have se: "m_side_effect (mock_urls self ! length (mock_urls self0)) =
      SIterator (map PyResponse rs)"
    using assms(1) by (simp add: urls_add)
  show ?thesis by (rule sequence_run [OF len se assms(2)]) simp
qed

theorem response_sequence_order_witness:
  "fst (dispatch_all sample_lib
      (add new_mock GET ''http://x.test/s'' False
         (SSequence [PyResponse default_response, PyResponse (default_response\<lparr>status := 404\<rparr>)])
         default_response)
      [plain_request GET ''http://x.test/s'', plain_request GET ''http://x.test/s'',
       plain_request GET ''http://x.test/s'']) =
     [Inr (as_requests_response default_response (plain_request GET ''http://x.test/s'')),
      Inr (as_requests_response (default_response\<lparr>status := 404\<rparr>)
             (plain_request GET ''http://x.test/s'')),
      Inl StopIteration]"
proof -
  let ?R2 = "default_response\<lparr>status := 404\<rparr>"
  let ?s = "add new_mock GET ''http://x.test/s'' False
      (SSequence [PyResponse default_response, PyResponse ?R2]) default_response"
  let ?r = "plain_request GET ''http://x.test/s''"
  define outs where "outs = fst (dispatch_all sample_lib ?s [?r, ?r, ?r])"
  define s' where "s' = snd (dispatch_all sample_lib ?s [?r, ?r, ?r])"
  have run: "dispatch_all sample_lib ?s [?r, ?r, ?r] = (outs, s')"
    unfolding outs_def s'_def by (rule prod.collapse [symmetric])
  have "length outs = 3" using dispatch_all_length [OF run] by simp
  then obtain a b c where abc: "outs = [a, b, c]"
    by (cases outs; cases "tl outs"; cases "tl (tl outs)") auto
  have reg: "?s = add new_mock GET ''http://x.test/s'' False
      (SSequence (map PyResponse [default_response, ?R2])) default_response"
    by simp
  have mi: "match_index (mock_urls ?s) ?r = Some (length (mock_urls new_mock))"
    by (simp add: match_index_def run_defs)
  from response_sequence_order [OF reg run] mi abc
  have "[a, b, c] = [Inr (as_requests_response default_response ?r),
      Inr (as_requests_response ?R2 ?r), Inl StopIteration]"
    by (simp add: numeral_2_eq_2)
  then show ?thesis unfolding outs_def [symmetric] abc .
qed

end
